theory Spec2Isabelle
  imports Main "HOL-Library.Word"
begin

unbundle bit_operations_syntax

section \<open>XBee IO sample reports: the decoder of \<open>zhaquirks/xbee/xbee_io.py\<close>\<close>

text \<open>
  The module parses the IO sample report of an XBee radio and maps its digital pins
  onto on/off endpoints. Python \<open>bytes\<close> are lists of 8-bit words, Python integers
  are \<open>int\<close>, list positions are \<open>nat\<close>. A Python exception is the left summand
  of a result; only the exceptions the module's own statements can raise are listed.
\<close>

type_synonym byte = "8 word"
type_synonym bytes = "byte list"

datatype error = KeyError | IndexError | TypeError

subsection \<open>Constants (lines 34 to 36)\<close>

definition DIO_PIN_HIGH :: int where "DIO_PIN_HIGH = 0x05"
definition DIO_PIN_LOW :: int where "DIO_PIN_LOW = 0x04"
definition ON_OFF_CMD :: nat where "ON_OFF_CMD = 0x0000"

subsection \<open>Slices and \<open>int.from_bytes\<close>\<close>

text \<open>
  \<open>data[a:b]\<close> for \<open>0 \<le> a \<le> b\<close>: the elements at positions \<open>a\<close> up to \<open>b - 1\<close>
  that exist. A slice never raises; past the end of \<open>data\<close> it is shorter or empty.
\<close>

definition slice :: "nat \<Rightarrow> nat \<Rightarrow> 'a list \<Rightarrow> 'a list" where
  "slice a b data = take (b - a) (drop a data)"

text \<open>\<open>int.from_bytes(bs, byteorder='big')\<close>, unsigned; the empty string gives 0.\<close>

definition from_bytes_big :: "bytes \<Rightarrow> int" where
  "from_bytes_big bs = foldl (\<lambda>acc b. acc * 256 + uint b) 0 bs"

text \<open>
  The comprehension \<open>[(x >> bit) & 1 for bit in range(n - 1, -1, -1)]\<close>: the bits of
  \<open>x\<close> from bit \<open>n - 1\<close> down to bit 0.
\<close>

definition bits_downto :: "int \<Rightarrow> nat \<Rightarrow> int list" where
  "bits_downto x n = map (\<lambda>bit. (drop_bit bit x) AND 1) (rev [0..<n])"

subsection \<open>\<open>IOSample.deserialize\<close> (lines 47 to 88)\<close>

record sample_values =
  digital_pins :: "int list"
  analog_pins :: "int list"
  digital_samples :: "int list"
  analog_samples :: "int list"

text \<open>
  The loop of lines 73 to 82 over \<open>analog_pins\<close>, with its two variables
  \<open>sample_index\<close> and \<open>analog_samples\<close> (here \<open>samples\<close>) as arguments: an enabled pin appends the
  integer read from \<open>data[5+sample_index:7+sample_index]\<close> and adds 1 to
  \<open>sample_index\<close>, any other pin appends 0.
\<close>

fun analog_loop :: "bytes \<Rightarrow> int list \<Rightarrow> nat \<Rightarrow> int list \<Rightarrow> int list" where
  "analog_loop data [] sample_index samples = samples"
| "analog_loop data (apin # apins) sample_index samples =
     (if apin = 1
      then analog_loop data apins (sample_index + 1)
             (samples @ [from_bytes_big (slice (5 + sample_index) (7 + sample_index) data)])
      else analog_loop data apins sample_index (samples @ [0]))"

text \<open>
  The method returns the dictionary of the four lists and the empty rest \<open>b''\<close>.
  No statement of it can raise, so the result is always the right summand.
\<close>

definition IOSample_deserialize :: "bytes \<Rightarrow> error + (sample_values \<times> bytes)" where
  "IOSample_deserialize data =
     (let digital_mask = slice 0 2 data;
          analog_mask = slice 2 3 data;
          digital_sample = slice 3 5 data;
          num_bits = 13;
          dpins = rev (bits_downto (from_bytes_big digital_mask) num_bits);
          apins = rev (bits_downto (from_bytes_big analog_mask) 8);
          dsamples = rev (bits_downto (from_bytes_big digital_sample) num_bits);
          asamples = analog_loop data apins 0 []
      in Inr (\<lparr>digital_pins = dpins, analog_pins = apins,
               digital_samples = dsamples, analog_samples = asamples\<rparr>, []))"

section \<open>The pin tables and the on/off command\<close>

subsection \<open>\<open>ENDPOINT_MAP\<close> (lines 96 to 106) and \<open>ep_id_2_pin\<close> (lines 112 to 122)\<close>

definition ENDPOINT_MAP :: "nat \<rightharpoonup> nat" where
  "ENDPOINT_MAP =
     [0 \<mapsto> 0xd0, 1 \<mapsto> 0xd1, 2 \<mapsto> 0xd2, 3 \<mapsto> 0xd3, 4 \<mapsto> 0xd4, 5 \<mapsto> 0xd5,
      10 \<mapsto> 0xda, 11 \<mapsto> 0xdb, 12 \<mapsto> 0xdc]"

definition ep_id_2_pin :: "nat \<rightharpoonup> string" where
  "ep_id_2_pin =
     [0xd0 \<mapsto> ''D0'', 0xd1 \<mapsto> ''D1'', 0xd2 \<mapsto> ''D2'', 0xd3 \<mapsto> ''D3'', 0xd4 \<mapsto> ''D4'',
      0xd5 \<mapsto> ''D5'', 0xda \<mapsto> ''P0'', 0xdb \<mapsto> ''P1'', 0xdc \<mapsto> ''P2'']"

subsection \<open>\<open>XbeeSensor.remote_at\<close> (lines 141 to 152)\<close>

text \<open>
  The device: its network address and whether its application object has the attribute
  \<open>remote_at_command\<close> (the coordinator is an XBee driven by zigpy_xbee).
\<close>

record xbee_sensor =
  nwk :: nat
  has_remote_at_command :: bool

text \<open>The call \<open>self._application.remote_at_command(nwk, command, *args, apply_changes=True, encryption=True)\<close>.\<close>

record remote_at_call =
  call_nwk :: nat
  call_command :: string
  call_args :: "int list"
  apply_changes :: bool
  encryption :: bool

text \<open>
  With the attribute, the method returns what the application's call returns, here the
  call itself; without it, the method logs a warning and falls off its end, returning
  Python's \<open>None\<close>.
\<close>

definition remote_at :: "xbee_sensor \<Rightarrow> string \<Rightarrow> int list \<Rightarrow> remote_at_call option" where
  "remote_at device cmd args =
     (if has_remote_at_command device
      then Some \<lparr>call_nwk = nwk device, call_command = cmd, call_args = args,
                  apply_changes = True, encryption = True\<rparr>
      else None)"

subsection \<open>\<open>XBeeOnOff.command\<close> (lines 124 to 135)\<close>

datatype status = SUCCESS

text \<open>
  What the coroutine gives: either what \<open>super().command(command, *args)\<close> returned, or,
  after awaiting the device's \<open>remote_at\<close>, the pair \<open>(0, SUCCESS)\<close>; the awaited call
  is kept beside the pair.
\<close>

datatype 's command_result =
    SuperReturned 's
  | PinCommand remote_at_call "nat \<times> status"

text \<open>
  The method of the superclass, zigpy's generic cluster command, is the argument
  \<open>super_command\<close>: from the command, the positional arguments and the keywords
  \<open>manufacturer\<close> and \<open>expect_reply\<close> to what it returns or the exception it raises.
  The module's method accepts the two keywords and passes neither on, so the superclass
  is called with their defaults \<open>None\<close> and \<open>True\<close>; an exception of the superclass
  leaves the method as it is.

  The test \<open>command not in [0, 1] or pin_name is None\<close> has no effect of its own, so
  it is written as a case on the lookup. The \<open>await\<close> is applied to what \<open>remote_at\<close>
  returned: awaiting the application's call is taken to complete (the transport is not
  part of the module), awaiting \<open>None\<close> raises \<open>TypeError\<close>.
\<close>

definition command ::
  "xbee_sensor \<Rightarrow> (nat \<Rightarrow> 'a list \<Rightarrow> 'm option \<Rightarrow> bool \<Rightarrow> error + 's) \<Rightarrow>
   nat \<Rightarrow> nat \<Rightarrow> 'a list \<Rightarrow> 'm option \<Rightarrow> bool \<Rightarrow> error + 's command_result" where
  "command device super_command endpoint_id cmd args manufacturer expect_reply =
     (case ep_id_2_pin endpoint_id of
        None \<Rightarrow>
          (case super_command cmd args None True of
             Inl e \<Rightarrow> Inl e
           | Inr r \<Rightarrow> Inr (SuperReturned r))
      | Some pin_name \<Rightarrow>
          if cmd \<notin> set [0, 1]
          then (case super_command cmd args None True of
                  Inl e \<Rightarrow> Inl e
                | Inr r \<Rightarrow> Inr (SuperReturned r))
          else
            let pin_cmd = (if cmd = 0 then DIO_PIN_LOW else DIO_PIN_HIGH)
            in (case remote_at device pin_name [pin_cmd] of
                  None \<Rightarrow> Inl TypeError
                | Some call \<Rightarrow> Inr (PinCommand call (0, SUCCESS))))"

section \<open>The digital IO cluster\<close>

subsection \<open>\<open>DigitalIOCluster.handle_cluster_general_request\<close> (lines 159 to 177)\<close>

text \<open>
  \<open>[i for i, x in enumerate(values['digital_pins']) if x == 1]\<close>
\<close>

definition active_pins :: "int list \<Rightarrow> nat list" where
  "active_pins pins = map fst (filter (\<lambda>(i, x). x = 1) (enumerate 0 pins))"

text \<open>
  The loop of lines 170 to 175. Each round sets the on/off attribute (identifier
  \<open>ON_OFF_CMD\<close>) of the endpoint \<open>ENDPOINT_MAP[pin]\<close> to \<open>values['digital_samples'][pin]\<close>;
  the updates made so far are the third argument. The subscript \<open>ENDPOINT_MAP[pin]\<close>
  raises \<open>KeyError\<close> for a pin that is no key, and the subscript of the samples raises
  \<open>IndexError\<close> past their end; an exception ends the loop and leaves the updates
  already made in place. The endpoints are those of the device's replacement table
  (lines 248 to 358), which has every value of \<open>ENDPOINT_MAP\<close>.
\<close>

fun update_loop :: "nat list \<Rightarrow> int list \<Rightarrow> (nat \<times> int) list \<Rightarrow> (nat \<times> int) list \<times> error option" where
  "update_loop [] samples updates = (updates, None)"
| "update_loop (pin # pins) samples updates =
     (case ENDPOINT_MAP pin of
        None \<Rightarrow> (updates, Some KeyError)
      | Some endpoint_id \<Rightarrow>
          if pin < length samples
          then update_loop pins samples (updates @ [(endpoint_id, samples ! pin)])
          else (updates, Some IndexError))"

datatype request_outcome =
    Updates "(nat \<times> int) list" "error option"
  | SuperRequest

text \<open>
  \<open>args\<close> holds the dictionaries that \<open>IOSample.deserialize\<close> made, which have both keys
  that line 166 asks for. Any other command identifier goes to the superclass.
\<close>

definition handle_cluster_general_request :: "byte \<Rightarrow> nat \<Rightarrow> sample_values list \<Rightarrow> request_outcome" where
  "handle_cluster_general_request tsn command_id args =
     (if command_id = ON_OFF_CMD
      then (case args of
              [] \<Rightarrow> Updates [] (Some IndexError)
            | values # _ \<Rightarrow>
                (case update_loop (active_pins (digital_pins values)) (digital_samples values) [] of
                   (updates, raised) \<Rightarrow> Updates updates raised))
      else SuperRequest)"

subsection \<open>\<open>DigitalIOCluster.deserialize\<close> (lines 179 to 220)\<close>

text \<open>
  A type of a command schema is its \<open>deserialize\<close> class method: from the data to a
  value and the rest of the data. \<open>IOSample\<close> is the module's own type; the types of
  the foundation commands belong to zigpy and give values of a type \<open>'f\<close>.
\<close>

datatype 'f zcl_value = IOSampleValue sample_values | ForeignValue 'f

type_synonym 'f zcl_type = "bytes \<Rightarrow> error + ('f zcl_value \<times> bytes)"

definition IOSample :: "'f zcl_type" where
  "IOSample data =
     (case IOSample_deserialize data of
        Inl e \<Rightarrow> Inl e
      | Inr (values, rest) \<Rightarrow> Inr (IOSampleValue values, rest))"

text \<open>
  zigpy's \<open>t.deserialize(data, schema)\<close>, called at lines 203 and 217: each type of the
  schema in turn reads its value from what the one before left; the result is the list
  of values and the rest.
\<close>

fun t_deserialize :: "bytes \<Rightarrow> 'f zcl_type list \<Rightarrow> error + ('f zcl_value list \<times> bytes)" where
  "t_deserialize data [] = Inr ([], data)"
| "t_deserialize data (type # schema) =
     (case type data of
        Inl e \<Rightarrow> Inl e
      | Inr (v, data') \<Rightarrow>
          (case t_deserialize data' schema of
             Inl e \<Rightarrow> Inl e
           | Inr (vs, rest) \<Rightarrow> Inr (v # vs, rest)))"

text \<open>The command tables of lines 223 to 228: name, schema, whether a reply.\<close>

type_synonym 'f commands = "nat \<rightharpoonup> (string \<times> 'f zcl_type list \<times> bool)"

definition client_commands :: "'f commands" where
  "client_commands = [0x0000 \<mapsto> (''io_sample'', [IOSample], False)]"

definition server_commands :: "'f commands" where
  "server_commands = [0x0000 \<mapsto> (''io_sample'', [IOSample], False)]"

text \<open>
  What the method returns: \<open>tsn\<close>, a command identifier, \<open>is_reply\<close>, and either the
  deserialized values or, on the two paths that give up, the data as they are.
\<close>

datatype 'f frame_payload = Values "'f zcl_value list" | Undecoded bytes

type_synonym 'f frame = "byte \<times> nat \<times> bool \<times> 'f frame_payload"

text \<open>Lines 217 to 220: deserialize with the schema found; data left over are only logged.\<close>

definition deserialize_with :: "byte \<Rightarrow> nat \<Rightarrow> bool \<Rightarrow> 'f zcl_type list \<Rightarrow> bytes \<Rightarrow> error + 'f frame" where
  "deserialize_with tsn command_id is_reply schema data =
     (case t_deserialize data schema of
        Inl e \<Rightarrow> Inl e
      | Inr (value, rest) \<Rightarrow> Inr (tsn, command_id, is_reply, Values value))"

text \<open>
  \<open>tsn\<close> and \<open>command_id\<close> are the two bytes of the frame header, so
  \<open>struct.pack('>i', x)[-1:]\<close> is the byte itself. \<open>foundation.COMMANDS\<close>, zigpy's table of
  the general commands, is the first argument.
\<close>

definition DigitalIOCluster_deserialize ::
  "'f commands \<Rightarrow> byte \<Rightarrow> nat \<Rightarrow> bool \<Rightarrow> byte \<Rightarrow> bytes \<Rightarrow> error + 'f frame" where
  "DigitalIOCluster_deserialize foundation_COMMANDS tsn frame_type is_reply command_id data =
     (if frame_type = 1
      then
        let commands = (if is_reply then client_commands else server_commands)
        in (case commands (unat command_id) of
              None \<Rightarrow>
                let data' = tsn # command_id # data;
                    new_command_id = ON_OFF_CMD
                in (case commands new_command_id of
                      None \<Rightarrow> Inr (tsn, unat command_id + 256, is_reply, Undecoded data')
                    | Some (name, schema, is_reply') \<Rightarrow>
                        (case t_deserialize data' schema of
                           Inl e \<Rightarrow> Inl e
                         | Inr (value, rest) \<Rightarrow> Inr (tsn, new_command_id, is_reply', Values value)))
            | Some (name, schema, is_reply') \<Rightarrow>
                deserialize_with tsn (unat command_id + 256) is_reply' schema data)
      else
        (case foundation_COMMANDS (unat command_id) of
           None \<Rightarrow> Inr (tsn, unat command_id, is_reply, Undecoded data)
         | Some (name, schema, is_reply') \<Rightarrow>
             deserialize_with tsn (unat command_id) is_reply' schema data))"

section \<open>Properties of the decoder\<close>

lemma length_bits_downto: "length (bits_downto x n) = n"
  by (simp add: bits_downto_def)

lemma rev_bits_downto: "rev (bits_downto x n) = map (\<lambda>bit. (drop_bit bit x) AND 1) [0..<n]"
  by (simp add: bits_downto_def rev_map)

lemma nth_rev_bits_downto: "i < n \<Longrightarrow> rev (bits_downto x n) ! i = (drop_bit i x) AND 1"
  by (simp add: rev_bits_downto)

lemma from_bytes_big_Nil: "from_bytes_big [] = 0"
  by (simp add: from_bytes_big_def)

lemma slice_past_end: "length data \<le> a \<Longrightarrow> slice a b data = []"
  by (simp add: slice_def)

lemma bits_one: "rev (bits_downto 1 13) = [1, 0, 0, 0, 0, 0, 0, 0, 0, 0, 0, 0, 0]"
  by code_simp

text \<open>The loop only appends: what it was given stays in front.\<close>

lemma analog_loop_append:
  "analog_loop data apins sample_index samples = samples @ analog_loop data apins sample_index []"
proof (induction apins arbitrary: sample_index samples)
  case Nil
  show ?case by simp
next
  case (Cons apin apins)
  show ?case
  proof (cases "apin = 1")
    case True
    then show ?thesis
      using Cons.IH [of "sample_index + 1"
          "samples @ [from_bytes_big (slice (5 + sample_index) (7 + sample_index) data)]"]
        Cons.IH [of "sample_index + 1"
          "[from_bytes_big (slice (5 + sample_index) (7 + sample_index) data)]"]
      by simp
  next
    case False
    then show ?thesis
      using Cons.IH [of sample_index "samples @ [0]"] Cons.IH [of sample_index "[0]"]
      by simp
  qed
qed

lemma length_analog_loop:
  "length (analog_loop data apins sample_index samples) = length samples + length apins"
  by (induction apins arbitrary: sample_index samples) simp_all

lemma analog_loop_Cons:
  "analog_loop data (apin # apins) sample_index [] =
     (if apin = 1
      then from_bytes_big (slice (5 + sample_index) (7 + sample_index) data)
             # analog_loop data apins (sample_index + 1) []
      else 0 # analog_loop data apins sample_index [])"
  using analog_loop_append [of data apins "sample_index + 1"
      "[from_bytes_big (slice (5 + sample_index) (7 + sample_index) data)]"]
    analog_loop_append [of data apins sample_index "[0]"]
  by simp

text \<open>
  Where each analog value comes from: the pin at position \<open>i\<close>, when enabled, reads the
  two bytes that start \<open>5 + m\<close> bytes into the data, \<open>m\<close> being the number of enabled pins
  before it, since \<open>sample_index\<close> grows by one for each of them.
\<close>

lemma analog_loop_nth:
  "i < length apins \<Longrightarrow>
   analog_loop data apins sample_index [] ! i =
     (if apins ! i = 1
      then from_bytes_big
             (slice (5 + (sample_index + length (filter (\<lambda>a. a = 1) (take i apins))))
                    (7 + (sample_index + length (filter (\<lambda>a. a = 1) (take i apins)))) data)
      else 0)"
proof (induction apins arbitrary: i sample_index)
  case Nil
  then show ?case by simp
next
  case (Cons apin apins)
  show ?case
  proof (cases i)
    case 0
    then show ?thesis by (simp del: analog_loop.simps add: analog_loop_Cons)
  next
    case (Suc j)
    with Cons.prems have j: "j < length apins" by simp
    show ?thesis
      using Cons.IH [OF j, of "sample_index + 1"] Cons.IH [OF j, of sample_index] Suc
      by (simp del: analog_loop.simps add: analog_loop_Cons)
  qed
qed

lemma IOSample_deserialize_Inr:
  "IOSample_deserialize data =
     Inr (\<lparr>digital_pins = rev (bits_downto (from_bytes_big (slice 0 2 data)) 13),
            analog_pins = rev (bits_downto (from_bytes_big (slice 2 3 data)) 8),
            digital_samples = rev (bits_downto (from_bytes_big (slice 3 5 data)) 13),
            analog_samples =
              analog_loop data (rev (bits_downto (from_bytes_big (slice 2 3 data)) 8)) 0 []\<rparr>, [])"
  by (simp add: IOSample_deserialize_def Let_def)

subsection \<open>Analog words (claim C1)\<close>

text \<open>
  Claim C1: each enabled analog pin consumes two bytes of the payload from byte 5 on, so
  that the \<open>m\<close>-th enabled pin is the big-endian value of bytes \<open>[5+2m : 7+2m]\<close>.
  The loop reads two bytes for an enabled pin but moves \<open>sample_index\<close> on by one only,
  so the second enabled pin reads bytes \<open>[6:8]\<close>, one byte of which the first has read
  already. With the analog mask \<open>0x03\<close> and the payload \<open>01 02 03 04\<close> the second value
  is \<open>0x0203\<close>, where bytes \<open>[7:9]\<close> hold \<open>0x0304\<close>.
\<close>

theorem analog_words_overlap:
  "IOSample_deserialize [0x00, 0x00, 0x03, 0x00, 0x00, 0x01, 0x02, 0x03, 0x04] =
     Inr (\<lparr>digital_pins = [0, 0, 0, 0, 0, 0, 0, 0, 0, 0, 0, 0, 0],
            analog_pins = [1, 1, 0, 0, 0, 0, 0, 0],
            digital_samples = [0, 0, 0, 0, 0, 0, 0, 0, 0, 0, 0, 0, 0],
            analog_samples = [0x0102, 0x0203, 0, 0, 0, 0, 0, 0]\<rparr>, [])
   \<and> from_bytes_big (slice 7 9 [0x00, 0x00, 0x03, 0x00, 0x00, 0x01, 0x02, 0x03, 0x04]) = 0x0304"
  by code_simp

subsection \<open>Short buffers (claim C2)\<close>

text \<open>
  Claim C2, as stated: a buffer shorter than the five header bytes plus two bytes for each
  enabled analog pin makes the decoder fail, with no partial result. It does not: the
  empty buffer decodes to the sample of all zeros, and a buffer that ends one byte into
  the word of its only enabled analog pin decodes that one byte as the pin's value.
\<close>

theorem short_buffer_decodes:
  "IOSample_deserialize [] =
     Inr (\<lparr>digital_pins = [0, 0, 0, 0, 0, 0, 0, 0, 0, 0, 0, 0, 0],
            analog_pins = [0, 0, 0, 0, 0, 0, 0, 0],
            digital_samples = [0, 0, 0, 0, 0, 0, 0, 0, 0, 0, 0, 0, 0],
            analog_samples = [0, 0, 0, 0, 0, 0, 0, 0]\<rparr>, [])
   \<and> IOSample_deserialize [0x00, 0x00, 0x01, 0x00, 0x00, 0x07] =
     Inr (\<lparr>digital_pins = [0, 0, 0, 0, 0, 0, 0, 0, 0, 0, 0, 0, 0],
            analog_pins = [1, 0, 0, 0, 0, 0, 0, 0],
            digital_samples = [0, 0, 0, 0, 0, 0, 0, 0, 0, 0, 0, 0, 0],
            analog_samples = [7, 0, 0, 0, 0, 0, 0, 0]\<rparr>, [])"
  by code_simp

text \<open>
  Claim C2, amended: for a buffer shorter than the five header bytes plus two bytes for
  each enabled analog pin the decoder does not fail; it returns a sample with all four
  sequences at their full lengths and an empty rest, and when the buffer has no byte
  after the five header bytes every analog value is 0, whichever pins are enabled.
\<close>

theorem short_buffer_never_fails:
  assumes "length data < 5 + 2 * length (filter (\<lambda>b. b = 1)
             (rev (bits_downto (from_bytes_big (slice 2 3 data)) 8)))"
  shows "\<exists>values. IOSample_deserialize data = Inr (values, [])
           \<and> length (digital_pins values) = 13 \<and> length (analog_pins values) = 8
           \<and> length (digital_samples values) = 13 \<and> length (analog_samples values) = 8
           \<and> (length data \<le> 5 \<longrightarrow> (\<forall>i<8. analog_samples values ! i = 0))"
proof -
  let ?apins = "rev (bits_downto (from_bytes_big (slice 2 3 data)) 8)"
  have len: "length ?apins = 8"
    by (simp add: length_bits_downto)
  have absent: "analog_loop data ?apins 0 [] ! i = 0"
    if "i < 8" and "length data \<le> 5" for i
    using that analog_loop_nth [of i ?apins data 0] len
    by (simp add: slice_past_end from_bytes_big_Nil)
  show ?thesis
    using absent
    by (simp add: IOSample_deserialize_Inr length_bits_downto length_analog_loop)
qed

theorem short_buffer_never_fails_witness:
  "length ([0x00, 0x00, 0x03, 0x00, 0x00] :: bytes)
     < 5 + 2 * length (filter (\<lambda>b. b = 1)
         (rev (bits_downto (from_bytes_big (slice 2 3 [0x00, 0x00, 0x03, 0x00, 0x00])) 8)))
   \<and> IOSample_deserialize [0x00, 0x00, 0x03, 0x00, 0x00] =
       Inr (\<lparr>digital_pins = [0, 0, 0, 0, 0, 0, 0, 0, 0, 0, 0, 0, 0],
              analog_pins = [1, 1, 0, 0, 0, 0, 0, 0],
              digital_samples = [0, 0, 0, 0, 0, 0, 0, 0, 0, 0, 0, 0, 0],
              analog_samples = [0, 0, 0, 0, 0, 0, 0, 0]\<rparr>, [])
   \<and> length ([0x00, 0x00, 0x03, 0x00, 0x00] :: bytes) \<le> 5
   \<and> [0, 0, 0, 0, 0, 0, 0, 0 :: int] ! 1 = 0"
proof -
  have short: "length ([0x00, 0x00, 0x03, 0x00, 0x00] :: bytes)
     < 5 + 2 * length (filter (\<lambda>b. b = 1)
         (rev (bits_downto (from_bytes_big (slice 2 3 [0x00, 0x00, 0x03, 0x00, 0x00])) 8)))"
    by code_simp
  have d: "IOSample_deserialize [0x00, 0x00, 0x03, 0x00, 0x00] =
       Inr (\<lparr>digital_pins = [0, 0, 0, 0, 0, 0, 0, 0, 0, 0, 0, 0, 0],
              analog_pins = [1, 1, 0, 0, 0, 0, 0, 0],
              digital_samples = [0, 0, 0, 0, 0, 0, 0, 0, 0, 0, 0, 0, 0],
              analog_samples = [0, 0, 0, 0, 0, 0, 0, 0]\<rparr>, [])"
    by code_simp
  from short_buffer_never_fails [OF short] short d show ?thesis by simp
qed

subsection \<open>Bit order of the digital words (claims C4 and C5)\<close>

text \<open>
  Claim C4, as stated: bit 12 of the digital-enable mask is pin 0 and bit 0 is pin 12, and
  the digital-sample word follows suit. The decoder lists the bits from bit 12 down to
  bit 0 and then reverses the list, so position 0 holds bit 0. A buffer whose two digital
  words are \<open>0x1000\<close> has bit 12 set in both, and decodes with pin 12 set and pin 0 clear.
\<close>

theorem bit12_is_pin12:
  "IOSample_deserialize [0x10, 0x00, 0x00, 0x10, 0x00] =
     Inr (\<lparr>digital_pins = [0, 0, 0, 0, 0, 0, 0, 0, 0, 0, 0, 0, 1],
            analog_pins = [0, 0, 0, 0, 0, 0, 0, 0],
            digital_samples = [0, 0, 0, 0, 0, 0, 0, 0, 0, 0, 0, 0, 1],
            analog_samples = [0, 0, 0, 0, 0, 0, 0, 0]\<rparr>, [])
   \<and> (drop_bit 12 (from_bytes_big (slice 0 2 [0x10, 0x00, 0x00, 0x10, 0x00]))) AND 1 = 1"
  by code_simp

text \<open>
  Claim C4, amended: for every buffer and every pin index \<open>i\<close> from 0 to 12, the decoded
  enable flag of pin \<open>i\<close> is bit \<open>i\<close> of the 16-bit digital-enable mask (bytes \<open>[0:2]\<close>, big
  endian), and the decoded value of pin \<open>i\<close> is bit \<open>i\<close> of the digital-sample word (bytes
  \<open>[3:5]\<close>): pin 0 is the least significant bit and pin 12 is bit 12.
\<close>

theorem pin_reads_own_bit:
  assumes "i < 13" and "IOSample_deserialize data = Inr (values, rest)"
  shows "digital_pins values ! i = (drop_bit i (from_bytes_big (slice 0 2 data))) AND 1
       \<and> digital_samples values ! i = (drop_bit i (from_bytes_big (slice 3 5 data))) AND 1"
  using assms by (auto simp add: IOSample_deserialize_Inr nth_rev_bits_downto)

theorem pin_reads_own_bit_witness:
  "(12::nat) < 13
   \<and> IOSample_deserialize [0x10, 0x00, 0x00, 0x00, 0x01] =
       Inr (\<lparr>digital_pins = [0, 0, 0, 0, 0, 0, 0, 0, 0, 0, 0, 0, 1],
              analog_pins = [0, 0, 0, 0, 0, 0, 0, 0],
              digital_samples = [1, 0, 0, 0, 0, 0, 0, 0, 0, 0, 0, 0, 0],
              analog_samples = [0, 0, 0, 0, 0, 0, 0, 0]\<rparr>, [])
   \<and> [0, 0, 0, 0, 0, 0, 0, 0, 0, 0, 0, 0, 1 :: int] ! 12
        = (drop_bit 12 (from_bytes_big (slice 0 2 [0x10, 0x00, 0x00, 0x00, 0x01]))) AND 1
   \<and> [1, 0, 0, 0, 0, 0, 0, 0, 0, 0, 0, 0, 0 :: int] ! 12
        = (drop_bit 12 (from_bytes_big (slice 3 5 [0x10, 0x00, 0x00, 0x00, 0x01]))) AND 1"
proof -
  have i: "(12::nat) < 13" by simp
  have d: "IOSample_deserialize [0x10, 0x00, 0x00, 0x00, 0x01] =
       Inr (\<lparr>digital_pins = [0, 0, 0, 0, 0, 0, 0, 0, 0, 0, 0, 0, 1],
              analog_pins = [0, 0, 0, 0, 0, 0, 0, 0],
              digital_samples = [1, 0, 0, 0, 0, 0, 0, 0, 0, 0, 0, 0, 0],
              analog_samples = [0, 0, 0, 0, 0, 0, 0, 0]\<rparr>, [])"
    by code_simp
  from pin_reads_own_bit [OF i d] i d show ?thesis by simp
qed

text \<open>
  Claim C5: a buffer whose digital-enable mask is \<open>0x0001\<close> decodes with pin 0 enabled and
  the pins 1 to 12 disabled.
\<close>

theorem only_pin0_enabled:
  assumes "from_bytes_big (slice 0 2 data) = 0x0001"
    and "IOSample_deserialize data = Inr (values, rest)"
  shows "digital_pins values ! 0 = 1 \<and> (\<forall>i\<in>{1..12}. digital_pins values ! i = 0)"
proof -
  have "digital_pins values = rev (bits_downto 1 13)"
    using assms by (auto simp add: IOSample_deserialize_Inr)
  then have "digital_pins values = [1, 0, 0, 0, 0, 0, 0, 0, 0, 0, 0, 0, 0]"
    by (simp add: bits_one)
  then show ?thesis
    by (auto simp add: nth_Cons')
qed

theorem only_pin0_enabled_witness:
  "from_bytes_big (slice 0 2 [0x00, 0x01, 0x00, 0x1f, 0xff]) = 0x0001
   \<and> IOSample_deserialize [0x00, 0x01, 0x00, 0x1f, 0xff] =
       Inr (\<lparr>digital_pins = [1, 0, 0, 0, 0, 0, 0, 0, 0, 0, 0, 0, 0],
              analog_pins = [0, 0, 0, 0, 0, 0, 0, 0],
              digital_samples = [1, 1, 1, 1, 1, 1, 1, 1, 1, 1, 1, 1, 1],
              analog_samples = [0, 0, 0, 0, 0, 0, 0, 0]\<rparr>, [])
   \<and> [1, 0, 0, 0, 0, 0, 0, 0, 0, 0, 0, 0, 0 :: int] ! 0 = 1
   \<and> [1, 0, 0, 0, 0, 0, 0, 0, 0, 0, 0, 0, 0 :: int] ! 12 = 0"
proof -
  have m: "from_bytes_big (slice 0 2 [0x00, 0x01, 0x00, 0x1f, 0xff]) = 0x0001"
    by code_simp
  have d: "IOSample_deserialize [0x00, 0x01, 0x00, 0x1f, 0xff] =
       Inr (\<lparr>digital_pins = [1, 0, 0, 0, 0, 0, 0, 0, 0, 0, 0, 0, 0],
              analog_pins = [0, 0, 0, 0, 0, 0, 0, 0],
              digital_samples = [1, 1, 1, 1, 1, 1, 1, 1, 1, 1, 1, 1, 1],
              analog_samples = [0, 0, 0, 0, 0, 0, 0, 0]\<rparr>, [])"
    by code_simp
  from only_pin0_enabled [OF m d] m d show ?thesis by simp
qed

subsection \<open>Fixed lengths and totality (claims C8 and C10)\<close>

text \<open>
  Claim C8: for a buffer of at least five bytes plus two bytes for each enabled analog
  pin, the decoded digital sequences have length 13, the analog ones length 8, and the
  analog value is 0 at every index whose enable flag is 0.
\<close>

theorem decoded_lengths_fixed:
  assumes "IOSample_deserialize data = Inr (values, rest)"
    and "5 + 2 * length (filter (\<lambda>b. b = 1) (analog_pins values)) \<le> length data"
  shows "length (digital_pins values) = 13 \<and> length (digital_samples values) = 13
       \<and> length (analog_pins values) = 8 \<and> length (analog_samples values) = 8
       \<and> (\<forall>i<8. analog_pins values ! i = 0 \<longrightarrow> analog_samples values ! i = 0)"
proof -
  let ?apins = "rev (bits_downto (from_bytes_big (slice 2 3 data)) 8)"
  have v: "values = \<lparr>digital_pins = rev (bits_downto (from_bytes_big (slice 0 2 data)) 13),
            analog_pins = ?apins,
            digital_samples = rev (bits_downto (from_bytes_big (slice 3 5 data)) 13),
            analog_samples = analog_loop data ?apins 0 []\<rparr>"
    using assms(1) by (simp add: IOSample_deserialize_Inr)
  have len: "length ?apins = 8"
    by (simp add: length_bits_downto)
  have zero: "analog_loop data ?apins 0 [] ! i = 0" if "i < 8" and "?apins ! i = 0" for i
    using that analog_loop_nth [of i ?apins data 0] len by simp
  show ?thesis
    using zero by (simp add: v length_bits_downto length_analog_loop)
qed

theorem decoded_lengths_fixed_witness:
  "IOSample_deserialize [0x00, 0x00, 0x05, 0x00, 0x00, 0x01, 0x02, 0x03, 0x04] =
     Inr (\<lparr>digital_pins = [0, 0, 0, 0, 0, 0, 0, 0, 0, 0, 0, 0, 0],
            analog_pins = [1, 0, 1, 0, 0, 0, 0, 0],
            digital_samples = [0, 0, 0, 0, 0, 0, 0, 0, 0, 0, 0, 0, 0],
            analog_samples = [0x0102, 0, 0x0203, 0, 0, 0, 0, 0]\<rparr>, [])
   \<and> 5 + 2 * length (filter (\<lambda>b. b = 1) [1, 0, 1, 0, 0, 0, 0, 0 :: int])
         \<le> length [0x00, 0x00, 0x05, 0x00, 0x00, 0x01, 0x02, 0x03, 0x04 :: byte]
   \<and> length [0x0102, 0, 0x0203, 0, 0, 0, 0, 0 :: int] = 8
   \<and> [1, 0, 1, 0, 0, 0, 0, 0 :: int] ! 1 = 0
   \<and> [0x0102, 0, 0x0203, 0, 0, 0, 0, 0 :: int] ! 1 = 0"
proof -
  have d: "IOSample_deserialize [0x00, 0x00, 0x05, 0x00, 0x00, 0x01, 0x02, 0x03, 0x04] =
     Inr (\<lparr>digital_pins = [0, 0, 0, 0, 0, 0, 0, 0, 0, 0, 0, 0, 0],
            analog_pins = [1, 0, 1, 0, 0, 0, 0, 0],
            digital_samples = [0, 0, 0, 0, 0, 0, 0, 0, 0, 0, 0, 0, 0],
            analog_samples = [0x0102, 0, 0x0203, 0, 0, 0, 0, 0]\<rparr>, [])"
    by code_simp
  have l: "5 + 2 * length (filter (\<lambda>b. b = 1)
             (analog_pins \<lparr>digital_pins = [0, 0, 0, 0, 0, 0, 0, 0, 0, 0, 0, 0, 0],
                analog_pins = [1, 0, 1, 0, 0, 0, 0, 0 :: int],
                digital_samples = [0, 0, 0, 0, 0, 0, 0, 0, 0, 0, 0, 0, 0],
                analog_samples = [0x0102, 0, 0x0203, 0, 0, 0, 0, 0]\<rparr>))
         \<le> length [0x00, 0x00, 0x05, 0x00, 0x00, 0x01, 0x02, 0x03, 0x04 :: byte]"
    by simp
  from decoded_lengths_fixed [OF d l] d l show ?thesis by simp
qed

text \<open>
  Claim C10: the decoder is total. For every buffer, the empty one and those shorter than
  the header or than their analog words included, it returns the four sequences at their
  fixed lengths and the empty rest, and never raises; a slice that starts at or past the
  end of the buffer is empty and reads as the integer 0.
\<close>

theorem deserialize_total:
  "(case IOSample_deserialize data of
      Inl e \<Rightarrow> False
    | Inr (values, rest) \<Rightarrow>
        rest = [] \<and> length (digital_pins values) = 13 \<and> length (analog_pins values) = 8
        \<and> length (digital_samples values) = 13 \<and> length (analog_samples values) = 8)
   \<and> from_bytes_big (slice (length data + a) (length data + b) data) = 0"
  by (simp add: IOSample_deserialize_Inr length_bits_downto length_analog_loop
      slice_past_end from_bytes_big_Nil)

section \<open>Properties of the on/off command\<close>

lemma ep_id_2_pin_D0: "ep_id_2_pin 0xd0 = Some ''D0''"
  by (simp add: ep_id_2_pin_def)

lemma ep_id_2_pin_9999: "ep_id_2_pin 0x9999 = None"
  by (simp add: ep_id_2_pin_def)

text \<open>The commands other than 0 and 1 go to the superclass on every endpoint.\<close>

lemma other_command_to_super:
  "cmd \<noteq> 0 \<Longrightarrow> cmd \<noteq> 1 \<Longrightarrow>
   command device super_command endpoint_id cmd args manufacturer expect_reply =
     (case super_command cmd args None True of
        Inl e \<Rightarrow> Inl e
      | Inr r \<Rightarrow> Inr (SuperReturned r))"
  by (simp add: command_def split: option.splits)

text \<open>An exception of the superclass is the exception of the command.\<close>

lemma super_exception_propagates:
  "ep_id_2_pin endpoint_id = None \<Longrightarrow> super_command cmd args None True = Inl e \<Longrightarrow>
   command device super_command endpoint_id cmd args manufacturer expect_reply = Inl e"
  by (simp add: command_def)

subsection \<open>Endpoints without a pin name (claim C6)\<close>

text \<open>
  Claim C6, as stated: for an endpoint that is no key of \<open>ep_id_2_pin\<close> and a value of 0 or
  1 the command fails with an error for the unsupported endpoint. The module has no such
  error: for endpoint \<open>0x9999\<close> and value 1 the command returns what the superclass
  returns. Here the superclass command returns the request it is called with, and the
  command, called with a manufacturer and without \<open>expect_reply\<close>, returns that request
  for command 1 with the default keywords.
\<close>

theorem unmapped_endpoint_forwarded:
  "command \<lparr>nwk = 0x1234, has_remote_at_command = True\<rparr>
       (\<lambda>c a m e. Inr (c, a, m, e)) 0x9999 1 ([] :: int list) (Some (0x10 :: nat)) False
     = Inr (SuperReturned (1, [], None, True))
   \<and> ep_id_2_pin 0x9999 = None"
  by (simp add: command_def ep_id_2_pin_def)

text \<open>
  Claim C6, amended: for every endpoint that is no key of \<open>ep_id_2_pin\<close> and a value of 0
  or 1, the command makes no pin command and calls the generic command of the superclass
  with the same command and positional arguments and with the default keywords
  (\<open>manufacturer\<close> and \<open>expect_reply\<close> are not passed on); what the superclass returns, or
  the exception it raises, is what the command returns or raises.
\<close>

theorem unmapped_endpoint_passthrough:
  assumes "ep_id_2_pin endpoint_id = None"
    and "cmd = 0 \<or> cmd = 1"
  shows "command device super_command endpoint_id cmd args manufacturer expect_reply =
           (case super_command cmd args None True of
              Inl e \<Rightarrow> Inl e
            | Inr r \<Rightarrow> Inr (SuperReturned r))
       \<and> (\<forall>call st. command device super_command endpoint_id cmd args manufacturer expect_reply
                      \<noteq> Inr (PinCommand call st))"
proof -
  have eq: "command device super_command endpoint_id cmd args manufacturer expect_reply =
           (case super_command cmd args None True of
              Inl e \<Rightarrow> Inl e
            | Inr r \<Rightarrow> Inr (SuperReturned r))"
    using assms(1) by (simp add: command_def)
  have "command device super_command endpoint_id cmd args manufacturer expect_reply
          \<noteq> Inr (PinCommand call st)" for call st
    by (cases "super_command cmd args None True") (simp_all add: eq)
  with eq show ?thesis by blast
qed

theorem unmapped_endpoint_passthrough_witness:
  "ep_id_2_pin 0x9999 = None
   \<and> ((0::nat) = 0 \<or> (0::nat) = 1)
   \<and> command \<lparr>nwk = 0x1234, has_remote_at_command = True\<rparr>
         (\<lambda>c a m e. Inr (c, a, m, e)) 0x9999 0 ([] :: int list) (Some (0x10 :: nat)) False
       = Inr (SuperReturned (0, [], None, True))"
proof -
  have e: "ep_id_2_pin 0x9999 = None" by (rule ep_id_2_pin_9999)
  have c: "(0::nat) = 0 \<or> (0::nat) = 1" by simp
  from unmapped_endpoint_passthrough [OF e c,
      of "\<lparr>nwk = 0x1234, has_remote_at_command = True\<rparr>"
         "\<lambda>c a m e. Inr (c, a, m, e)" "[] :: int list" "Some (0x10 :: nat)" False] e c
  show ?thesis by simp
qed

subsection \<open>Pin commands (claim C9)\<close>

text \<open>
  Claim C9, as stated: for every endpoint of \<open>ep_id_2_pin\<close> and a value of 0 or 1 the
  command makes the pin command and returns the success status at once. The status is
  returned only after the device's \<open>remote_at\<close> has been awaited, and on a device whose
  application has no \<open>remote_at_command\<close> that method returns \<open>None\<close>: for endpoint
  \<open>0xd0\<close> and value 1 the command then raises and returns no status.
\<close>

theorem pin_write_needs_remote_at:
  "command \<lparr>nwk = 0x1234, has_remote_at_command = False\<rparr>
       (\<lambda>c a m e. Inr (c, a, m, e)) 0xd0 1 ([] :: int list) (None :: nat option) True
     = Inl TypeError
   \<and> ep_id_2_pin 0xd0 = Some ''D0''"
  by (simp add: command_def ep_id_2_pin_def remote_at_def)

text \<open>
  Claim C9, amended: on a device whose application has \<open>remote_at_command\<close>, for every
  endpoint of \<open>ep_id_2_pin\<close> and a value of 0 or 1, the command calls the remote AT command
  with the pin name of the endpoint (\<open>0xd0\<close> gives \<open>D0\<close>) and the argument \<open>DIO_PIN_HIGH\<close>
  for 1 and \<open>DIO_PIN_LOW\<close> for 0, with \<open>apply_changes\<close> and \<open>encryption\<close> set, and after
  awaiting that call returns \<open>(0, SUCCESS)\<close>.
\<close>

theorem pin_command_mapping:
  assumes "has_remote_at_command device"
    and "ep_id_2_pin endpoint_id = Some pin_name"
    and "cmd = 0 \<or> cmd = 1"
  shows "command device super_command endpoint_id cmd args manufacturer expect_reply =
           Inr (PinCommand
                  \<lparr>call_nwk = nwk device, call_command = pin_name,
                     call_args = [if cmd = 1 then DIO_PIN_HIGH else DIO_PIN_LOW],
                     apply_changes = True, encryption = True\<rparr>
                  (0, SUCCESS))
       \<and> ep_id_2_pin 0xd0 = Some ''D0''"
  using assms ep_id_2_pin_D0 by (auto simp add: command_def remote_at_def)

theorem pin_command_mapping_witness:
  "has_remote_at_command \<lparr>nwk = 0x1234, has_remote_at_command = True\<rparr>
   \<and> ep_id_2_pin 0xd0 = Some ''D0''
   \<and> command \<lparr>nwk = 0x1234, has_remote_at_command = True\<rparr>
         (\<lambda>c a m e. Inr (c, a, m, e)) 0xd0 1 ([] :: int list) (None :: nat option) True =
       Inr (PinCommand
              \<lparr>call_nwk = 0x1234, call_command = ''D0'', call_args = [0x05],
                 apply_changes = True, encryption = True\<rparr>
              (0, SUCCESS))
   \<and> command \<lparr>nwk = 0x1234, has_remote_at_command = True\<rparr>
         (\<lambda>c a m e. Inr (c, a, m, e)) 0xd0 0 ([] :: int list) (None :: nat option) True =
       Inr (PinCommand
              \<lparr>call_nwk = 0x1234, call_command = ''D0'', call_args = [0x04],
                 apply_changes = True, encryption = True\<rparr>
              (0, SUCCESS))"
proof -
  have h: "has_remote_at_command \<lparr>nwk = 0x1234, has_remote_at_command = True\<rparr>" by simp
  have e: "ep_id_2_pin 0xd0 = Some ''D0''" by (rule ep_id_2_pin_D0)
  have c1: "(1::nat) = 0 \<or> (1::nat) = 1" by simp
  have c0: "(0::nat) = 0 \<or> (0::nat) = 1" by simp
  from pin_command_mapping [OF h e c1,
      of "\<lambda>c a m e. Inr (c, a, m, e)" "[] :: int list" "None :: nat option" True]
    pin_command_mapping [OF h e c0,
      of "\<lambda>c a m e. Inr (c, a, m, e)" "[] :: int list" "None :: nat option" True] h e
  show ?thesis by (simp add: DIO_PIN_HIGH_def DIO_PIN_LOW_def)
qed

section \<open>Properties of the digital IO cluster\<close>

text \<open>
  The loop over the active pins, when each of them is a key of \<open>ENDPOINT_MAP\<close> and has a
  sample: one update for each pin, in the order of the pins, and no exception.
\<close>

lemma update_loop_mapped:
  "(\<And>pin. pin \<in> set pins \<Longrightarrow> ENDPOINT_MAP pin \<noteq> None \<and> pin < length samples) \<Longrightarrow>
   update_loop pins samples updates =
     (updates @ map (\<lambda>pin. (the (ENDPOINT_MAP pin), samples ! pin)) pins, None)"
proof (induction pins arbitrary: updates)
  case Nil
  show ?case by simp
next
  case (Cons pin pins)
  have here: "ENDPOINT_MAP pin \<noteq> None \<and> pin < length samples"
    using Cons.prems [of pin] by simp
  have rest: "\<And>p. p \<in> set pins \<Longrightarrow> ENDPOINT_MAP p \<noteq> None \<and> p < length samples"
    using Cons.prems by simp
  from here obtain endpoint_id where ep: "ENDPOINT_MAP pin = Some endpoint_id" by auto
  show ?case
    using Cons.IH [OF rest, of "updates @ [(endpoint_id, samples ! pin)]"] here ep
    by simp
qed

text \<open>
  The first active pin that is no key of \<open>ENDPOINT_MAP\<close> ends the loop with \<open>KeyError\<close>:
  the pins before it have been updated, those after it are not looked at.
\<close>

lemma update_loop_unmapped:
  "ENDPOINT_MAP pin = None \<Longrightarrow>
   (\<And>p. p \<in> set before \<Longrightarrow> ENDPOINT_MAP p \<noteq> None \<and> p < length samples) \<Longrightarrow>
   update_loop (before @ pin # after) samples updates =
     (updates @ map (\<lambda>p. (the (ENDPOINT_MAP p), samples ! p)) before, Some KeyError)"
proof (induction before arbitrary: updates)
  case Nil
  then show ?case by simp
next
  case (Cons b before)
  have here: "ENDPOINT_MAP b \<noteq> None \<and> b < length samples"
    using Cons.prems(2) [of b] by simp
  have rest: "\<And>p. p \<in> set before \<Longrightarrow> ENDPOINT_MAP p \<noteq> None \<and> p < length samples"
    using Cons.prems(2) by simp
  from here obtain endpoint_id where ep: "ENDPOINT_MAP b = Some endpoint_id" by auto
  show ?case
    using Cons.IH [OF Cons.prems(1) rest, of "updates @ [(endpoint_id, samples ! b)]"] here ep
    by simp
qed

text \<open>The active pins are the positions that hold 1, in ascending order.\<close>

lemma active_pins_enumerate:
  "map fst (filter (\<lambda>(i, x). x = 1) (enumerate n pins)) =
     filter (\<lambda>i. pins ! (i - n) = (1::int)) [n..<n + length pins]"
proof (induction pins arbitrary: n)
  case Nil
  show ?case by simp
next
  case (Cons x pins)
  have shift: "filter (\<lambda>i. (y # pins) ! (i - n) = 1) [Suc n..<Suc n + length pins] =
               filter (\<lambda>i. pins ! (i - Suc n) = 1) [Suc n..<Suc n + length pins]" for y
    by (rule filter_cong) (auto simp add: nth_Cons')
  have "[n..<n + length (x # pins)] = n # [Suc n..<Suc n + length pins]"
    by (simp add: upt_conv_Cons del: upt_Suc)
  then show ?case
    using Cons.IH [of "Suc n"] shift by (simp del: upt_Suc)
qed

lemma active_pins_eq: "active_pins pins = filter (\<lambda>i. pins ! i = 1) [0..<length pins]"
  using active_pins_enumerate [of 0 pins] by (simp add: active_pins_def)

text \<open>
  A sample all of whose enabled pins are keys of \<open>ENDPOINT_MAP\<close>: the handler makes one
  update for each enabled pin, in ascending order of the pins, and raises nothing.
\<close>

lemma handle_mapped_sample:
  assumes "\<And>pin. pin < length (digital_pins values) \<Longrightarrow> digital_pins values ! pin = 1 \<Longrightarrow>
             ENDPOINT_MAP pin \<noteq> None \<and> pin < length (digital_samples values)"
  shows "handle_cluster_general_request tsn ON_OFF_CMD (values # args) =
           Updates (map (\<lambda>pin. (the (ENDPOINT_MAP pin), digital_samples values ! pin))
                      (filter (\<lambda>i. digital_pins values ! i = 1)
                         [0..<length (digital_pins values)]))
                   None"
proof -
  have "update_loop (active_pins (digital_pins values)) (digital_samples values) [] =
          ([] @ map (\<lambda>pin. (the (ENDPOINT_MAP pin), digital_samples values ! pin))
                  (active_pins (digital_pins values)), None)"
    by (rule update_loop_mapped) (use assms in \<open>auto simp add: active_pins_eq\<close>)
  then show ?thesis
    by (simp add: handle_cluster_general_request_def active_pins_eq)
qed

lemma only_pin10_update:
  "handle_cluster_general_request 0 ON_OFF_CMD
     [\<lparr>digital_pins = [0, 0, 0, 0, 0, 0, 0, 0, 0, 0, 1, 0, 0],
       analog_pins = [0, 0, 0, 0, 0, 0, 0, 0],
       digital_samples = [0, 0, 0, 0, 0, 0, 0, 0, 0, 0, 1, 0, 0],
       analog_samples = [0, 0, 0, 0, 0, 0, 0, 0]\<rparr>]
     = Updates [(0xda, 1)] None"
  by code_simp

text \<open>
  A general command (any frame type but 1) that the foundation table does not have comes
  back as it is, data undecoded; the method only logs a warning.
\<close>

lemma unknown_foundation_command_undecoded:
  "frame_type \<noteq> 1 \<Longrightarrow> foundation_COMMANDS (unat command_id) = None \<Longrightarrow>
   DigitalIOCluster_deserialize foundation_COMMANDS tsn frame_type is_reply command_id data =
     Inr (tsn, unat command_id, is_reply, Undecoded data)"
  by (simp add: DigitalIOCluster_deserialize_def)

subsection \<open>Enabled pins without an endpoint (claim C3)\<close>

text \<open>
  Claim C3: the handler makes one update (endpoint, value) for each enabled digital pin
  that has an entry in \<open>ENDPOINT_MAP\<close>, in ascending order of the pins, and skips an enabled
  pin without an entry (6, 7, 8 or 9) silently. The handler subscripts \<open>ENDPOINT_MAP\<close> with
  every enabled pin, so a pin without an entry raises \<open>KeyError\<close>. The buffer
  \<open>00 41 00 00 01\<close> enables the pins 0 and 6: the handler updates endpoint \<open>0xd0\<close> and
  then raises, where the claim has it finish with that one update.
\<close>

theorem unmapped_pin_raises_KeyError:
  "IOSample_deserialize [0x00, 0x41, 0x00, 0x00, 0x01] =
     Inr (\<lparr>digital_pins = [1, 0, 0, 0, 0, 0, 1, 0, 0, 0, 0, 0, 0],
            analog_pins = [0, 0, 0, 0, 0, 0, 0, 0],
            digital_samples = [1, 0, 0, 0, 0, 0, 0, 0, 0, 0, 0, 0, 0],
            analog_samples = [0, 0, 0, 0, 0, 0, 0, 0]\<rparr>, [])
   \<and> handle_cluster_general_request 0x2a ON_OFF_CMD
        [\<lparr>digital_pins = [1, 0, 0, 0, 0, 0, 1, 0, 0, 0, 0, 0, 0],
          analog_pins = [0, 0, 0, 0, 0, 0, 0, 0],
          digital_samples = [1, 0, 0, 0, 0, 0, 0, 0, 0, 0, 0, 0, 0],
          analog_samples = [0, 0, 0, 0, 0, 0, 0, 0]\<rparr>]
       = Updates [(0xd0, 1)] (Some KeyError)"
  by code_simp

subsection \<open>Command identifiers the cluster does not know (claim C7)\<close>

text \<open>
  Claim C7, as stated: a command identifier other than that of the IO sample report is
  rejected as an unknown command and not decoded as sample data. For a cluster command
  (frame type 1) with the identifier \<open>0x55\<close> the method puts the bytes of \<open>tsn\<close> and of the
  identifier back in front of the data and decodes the five bytes \<open>12 55 00 00 00\<close> as an
  IO sample, which it returns under the identifier \<open>0x0000\<close>.
\<close>

theorem unknown_command_read_as_sample:
  "DigitalIOCluster_deserialize (Map.empty :: unit commands) 0x12 1 False 0x55 [0x00, 0x00, 0x00] =
     Inr (0x12, 0, False,
          Values [IOSampleValue
            \<lparr>digital_pins = [1, 0, 1, 0, 1, 0, 1, 0, 0, 1, 0, 0, 1],
              analog_pins = [0, 0, 0, 0, 0, 0, 0, 0],
              digital_samples = [0, 0, 0, 0, 0, 0, 0, 0, 0, 0, 0, 0, 0],
              analog_samples = [0, 0, 0, 0, 0, 0, 0, 0]\<rparr>])"
  by code_simp

text \<open>
  Claim C7, amended: for every cluster command (frame type 1) whose identifier is not
  \<open>0x0000\<close>, whatever the table of the foundation commands, the method decodes the byte of
  \<open>tsn\<close>, the byte of the identifier and the data, in this order, as one IO sample, and
  returns it as the value of command \<open>0x0000\<close>, not a reply; nothing is rejected.
\<close>

theorem unknown_cluster_command_is_io_sample:
  assumes "command_id \<noteq> 0"
  shows "\<exists>values. IOSample_deserialize (tsn # command_id # data) = Inr (values, [])
           \<and> DigitalIOCluster_deserialize foundation_COMMANDS tsn 1 is_reply command_id data
               = Inr (tsn, ON_OFF_CMD, False, Values [IOSampleValue values])"
proof -
  obtain decoded where v: "IOSample_deserialize (tsn # command_id # data) = Inr (decoded, [])"
    by (simp add: IOSample_deserialize_def Let_def)
  have u: "unat command_id \<noteq> 0"
    using assms by (simp add: unat_eq_0)
  have "DigitalIOCluster_deserialize foundation_COMMANDS tsn 1 is_reply command_id data
               = Inr (tsn, ON_OFF_CMD, False, Values [IOSampleValue decoded])"
    using u v
    by (simp add: DigitalIOCluster_deserialize_def client_commands_def server_commands_def
        ON_OFF_CMD_def IOSample_def Let_def)
  with v show ?thesis by blast
qed

theorem unknown_cluster_command_is_io_sample_witness:
  "(0x55 :: byte) \<noteq> 0
   \<and> (\<exists>values. IOSample_deserialize (0x12 # 0x55 # [0x00, 0x00, 0x00]) = Inr (values, [])
           \<and> DigitalIOCluster_deserialize (Map.empty :: unit commands) 0x12 1 False 0x55
                [0x00, 0x00, 0x00]
               = Inr (0x12, ON_OFF_CMD, False, Values [IOSampleValue values]))"
proof -
  have c: "(0x55 :: byte) \<noteq> 0" by simp
  from unknown_cluster_command_is_io_sample [OF c] c show ?thesis by blast
qed

end
